theory Spec2Isabelle
  imports Main
begin

section \<open>Audit log resolution of \<^verbatim>\<open>src/structures/GuildAuditLogs.js\<close>\<close>

text \<open>
  The module decodes one batch of raw audit records: every record is classified by its
  numeric action code (\<^verbatim>\<open>GuildAuditLogs.targetType\<close>, \<^verbatim>\<open>GuildAuditLogs.actionType\<close>) and
  turned into an entry whose target is looked up in caches or synthesised
  (\<^verbatim>\<open>GuildAuditLogsEntry.constructor\<close>); the batch constructor collects the entries in a
  \<^verbatim>\<open>Collection\<close> keyed by id.

  JavaScript exceptions are values of the type \<open>error\<close>; a constructor that may throw
  returns \<open>error + _\<close> with \<open>Inl\<close> for the exception.
\<close>

subsection \<open>JavaScript values\<close>

text \<open>
  The values found in a deserialised payload. \<open>JUndefined\<close> is also what reading an absent
  property gives. Numbers are the integers (payload numbers here are codes, counts and bit
  sets). \<open>JGuildObject\<close> is the guild context object itself, named by its id: the invite
  branch stores it under the property \<^verbatim>\<open>guild\<close>.
\<close>

datatype jsval =
    JUndefined
  | JNull
  | JBool bool
  | JNum int
  | JStr string
  | JArr "jsval list"
  | JObj "(string \<times> jsval) list"
  | JGuildObject string

type_synonym obj = "(string \<times> jsval) list"

text \<open>ToBoolean, as used by \<^verbatim>\<open>||\<close>, \<^verbatim>\<open>?:\<close> and \<^verbatim>\<open>if\<close>.\<close>

fun truthy :: "jsval \<Rightarrow> bool" where
  "truthy JUndefined = False"
| "truthy JNull = False"
| "truthy (JBool b) = b"
| "truthy (JNum n) = (n \<noteq> 0)"
| "truthy (JStr s) = (s \<noteq> [])"
| "truthy (JArr xs) = True"
| "truthy (JObj ps) = True"
| "truthy (JGuildObject g) = True"

text \<open>\<^verbatim>\<open>o.k\<close>: the value of property \<open>k\<close>, \<^verbatim>\<open>undefined\<close> when the object has none.\<close>

definition obj_get :: "obj \<Rightarrow> string \<Rightarrow> jsval" where
  "obj_get ob k = (case map_of ob k of None \<Rightarrow> JUndefined | Some v \<Rightarrow> v)"

text \<open>
  \<^verbatim>\<open>o[k] = v\<close>: an existing property keeps its place and takes the new value, a new one is
  appended.
\<close>

fun obj_set :: "obj \<Rightarrow> string \<Rightarrow> jsval \<Rightarrow> obj" where
  "obj_set [] k v = [(k, v)]"
| "obj_set (p # ps) k v = (if fst p = k then (k, v) # ps else p # obj_set ps k v)"

text \<open>
  \<^verbatim>\<open>Number(v)\<close>. The result is an integer, \<^verbatim>\<open>NaN\<close>, or, for an argument outside the fragment
  evaluated here (a string that is not a plain run of decimal digits, or whose value is
  beyond \<open>2 ^ 53\<close>, where a double is no longer exact; an array; an object), the application
  \<open>NumberOf v\<close> left as it is.
\<close>

datatype jsnum = Num int | NaN | NumberOf jsval

definition is_digit :: "char \<Rightarrow> bool" where
  "is_digit c = (c \<in> set ''0123456789'')"

text \<open>The value of a digit is its place in \<^verbatim>\<open>0123456789\<close>.\<close>

definition digit_val :: "char \<Rightarrow> int" where
  "digit_val c = int (length (takeWhile (\<lambda>d. d \<noteq> c) ''0123456789''))"

definition decimal_val :: "string \<Rightarrow> int" where
  "decimal_val s = foldl (\<lambda>a c. 10 * a + digit_val c) 0 s"

fun Number :: "jsval \<Rightarrow> jsnum" where
  "Number JUndefined = NaN"
| "Number JNull = Num 0"
| "Number (JBool b) = Num (if b then 1 else 0)"
| "Number (JNum n) = Num n"
| "Number (JStr s) =
     (if s = [] then Num 0
      else if list_all is_digit s \<and> decimal_val s \<le> 9007199254740992
      then Num (decimal_val s)
      else NumberOf (JStr s))"
| "Number v = NumberOf v"

subsection \<open>The tables \<^verbatim>\<open>Targets\<close> and \<^verbatim>\<open>Actions\<close>\<close>

text \<open>The key mirror \<^verbatim>\<open>Targets\<close>; its member \<^verbatim>\<open>ALL\<close> is written \<open>TARGETS_ALL\<close>.\<close>

datatype AuditLogTargetType =
    TARGETS_ALL | GUILD | CHANNEL | USER | ROLE | INVITE | WEBHOOK | EMOJI | MESSAGE
  | INTEGRATION | UNKNOWN

text \<open>The four strings \<^verbatim>\<open>actionType\<close> returns; \<^verbatim>\<open>'ALL'\<close> is written \<open>ACTIONTYPE_ALL\<close>.\<close>

datatype AuditLogActionType = CREATE | DELETE | UPDATE | ACTIONTYPE_ALL

text \<open>An action code: an integer, or \<^verbatim>\<open>null\<close> (\<open>None\<close>).\<close>

type_synonym AuditLogAction = "int option"

abbreviation ACTIONS_ALL :: AuditLogAction where "ACTIONS_ALL \<equiv> None"
abbreviation GUILD_UPDATE :: AuditLogAction where "GUILD_UPDATE \<equiv> Some 1"
abbreviation CHANNEL_CREATE :: AuditLogAction where "CHANNEL_CREATE \<equiv> Some 10"
abbreviation CHANNEL_UPDATE :: AuditLogAction where "CHANNEL_UPDATE \<equiv> Some 11"
abbreviation CHANNEL_DELETE :: AuditLogAction where "CHANNEL_DELETE \<equiv> Some 12"
abbreviation CHANNEL_OVERWRITE_CREATE :: AuditLogAction where "CHANNEL_OVERWRITE_CREATE \<equiv> Some 13"
abbreviation CHANNEL_OVERWRITE_UPDATE :: AuditLogAction where "CHANNEL_OVERWRITE_UPDATE \<equiv> Some 14"
abbreviation CHANNEL_OVERWRITE_DELETE :: AuditLogAction where "CHANNEL_OVERWRITE_DELETE \<equiv> Some 15"
abbreviation MEMBER_KICK :: AuditLogAction where "MEMBER_KICK \<equiv> Some 20"
abbreviation MEMBER_PRUNE :: AuditLogAction where "MEMBER_PRUNE \<equiv> Some 21"
abbreviation MEMBER_BAN_ADD :: AuditLogAction where "MEMBER_BAN_ADD \<equiv> Some 22"
abbreviation MEMBER_BAN_REMOVE :: AuditLogAction where "MEMBER_BAN_REMOVE \<equiv> Some 23"
abbreviation MEMBER_UPDATE :: AuditLogAction where "MEMBER_UPDATE \<equiv> Some 24"
abbreviation MEMBER_ROLE_UPDATE :: AuditLogAction where "MEMBER_ROLE_UPDATE \<equiv> Some 25"
abbreviation MEMBER_MOVE :: AuditLogAction where "MEMBER_MOVE \<equiv> Some 26"
abbreviation MEMBER_DISCONNECT :: AuditLogAction where "MEMBER_DISCONNECT \<equiv> Some 27"
abbreviation BOT_ADD :: AuditLogAction where "BOT_ADD \<equiv> Some 28"
abbreviation ROLE_CREATE :: AuditLogAction where "ROLE_CREATE \<equiv> Some 30"
abbreviation ROLE_UPDATE :: AuditLogAction where "ROLE_UPDATE \<equiv> Some 31"
abbreviation ROLE_DELETE :: AuditLogAction where "ROLE_DELETE \<equiv> Some 32"
abbreviation INVITE_CREATE :: AuditLogAction where "INVITE_CREATE \<equiv> Some 40"
abbreviation INVITE_UPDATE :: AuditLogAction where "INVITE_UPDATE \<equiv> Some 41"
abbreviation INVITE_DELETE :: AuditLogAction where "INVITE_DELETE \<equiv> Some 42"
abbreviation WEBHOOK_CREATE :: AuditLogAction where "WEBHOOK_CREATE \<equiv> Some 50"
abbreviation WEBHOOK_UPDATE :: AuditLogAction where "WEBHOOK_UPDATE \<equiv> Some 51"
abbreviation WEBHOOK_DELETE :: AuditLogAction where "WEBHOOK_DELETE \<equiv> Some 52"
abbreviation EMOJI_CREATE :: AuditLogAction where "EMOJI_CREATE \<equiv> Some 60"
abbreviation EMOJI_UPDATE :: AuditLogAction where "EMOJI_UPDATE \<equiv> Some 61"
abbreviation EMOJI_DELETE :: AuditLogAction where "EMOJI_DELETE \<equiv> Some 62"
abbreviation MESSAGE_DELETE :: AuditLogAction where "MESSAGE_DELETE \<equiv> Some 72"
abbreviation MESSAGE_BULK_DELETE :: AuditLogAction where "MESSAGE_BULK_DELETE \<equiv> Some 73"
abbreviation MESSAGE_PIN :: AuditLogAction where "MESSAGE_PIN \<equiv> Some 74"
abbreviation MESSAGE_UNPIN :: AuditLogAction where "MESSAGE_UNPIN \<equiv> Some 75"
abbreviation INTEGRATION_CREATE :: AuditLogAction where "INTEGRATION_CREATE \<equiv> Some 80"
abbreviation INTEGRATION_UPDATE :: AuditLogAction where "INTEGRATION_UPDATE \<equiv> Some 81"
abbreviation INTEGRATION_DELETE :: AuditLogAction where "INTEGRATION_DELETE \<equiv> Some 82"

text \<open>The object \<^verbatim>\<open>Actions\<close>, its keys in the order of the literal.\<close>

definition Actions :: "(string \<times> AuditLogAction) list" where
  "Actions =
    [(''ALL'', ACTIONS_ALL),
     (''GUILD_UPDATE'', GUILD_UPDATE),
     (''CHANNEL_CREATE'', CHANNEL_CREATE),
     (''CHANNEL_UPDATE'', CHANNEL_UPDATE),
     (''CHANNEL_DELETE'', CHANNEL_DELETE),
     (''CHANNEL_OVERWRITE_CREATE'', CHANNEL_OVERWRITE_CREATE),
     (''CHANNEL_OVERWRITE_UPDATE'', CHANNEL_OVERWRITE_UPDATE),
     (''CHANNEL_OVERWRITE_DELETE'', CHANNEL_OVERWRITE_DELETE),
     (''MEMBER_KICK'', MEMBER_KICK),
     (''MEMBER_PRUNE'', MEMBER_PRUNE),
     (''MEMBER_BAN_ADD'', MEMBER_BAN_ADD),
     (''MEMBER_BAN_REMOVE'', MEMBER_BAN_REMOVE),
     (''MEMBER_UPDATE'', MEMBER_UPDATE),
     (''MEMBER_ROLE_UPDATE'', MEMBER_ROLE_UPDATE),
     (''MEMBER_MOVE'', MEMBER_MOVE),
     (''MEMBER_DISCONNECT'', MEMBER_DISCONNECT),
     (''BOT_ADD'', BOT_ADD),
     (''ROLE_CREATE'', ROLE_CREATE),
     (''ROLE_UPDATE'', ROLE_UPDATE),
     (''ROLE_DELETE'', ROLE_DELETE),
     (''INVITE_CREATE'', INVITE_CREATE),
     (''INVITE_UPDATE'', INVITE_UPDATE),
     (''INVITE_DELETE'', INVITE_DELETE),
     (''WEBHOOK_CREATE'', WEBHOOK_CREATE),
     (''WEBHOOK_UPDATE'', WEBHOOK_UPDATE),
     (''WEBHOOK_DELETE'', WEBHOOK_DELETE),
     (''EMOJI_CREATE'', EMOJI_CREATE),
     (''EMOJI_UPDATE'', EMOJI_UPDATE),
     (''EMOJI_DELETE'', EMOJI_DELETE),
     (''MESSAGE_DELETE'', MESSAGE_DELETE),
     (''MESSAGE_BULK_DELETE'', MESSAGE_BULK_DELETE),
     (''MESSAGE_PIN'', MESSAGE_PIN),
     (''MESSAGE_UNPIN'', MESSAGE_UNPIN),
     (''INTEGRATION_CREATE'', INTEGRATION_CREATE),
     (''INTEGRATION_UPDATE'', INTEGRATION_UPDATE),
     (''INTEGRATION_DELETE'', INTEGRATION_DELETE)]"

subsection \<open>\<^verbatim>\<open>GuildAuditLogs.targetType\<close> and \<^verbatim>\<open>GuildAuditLogs.actionType\<close>\<close>

text \<open>
  The relational operator \<^verbatim>\<open><\<close> converts its operand to a number first: \<^verbatim>\<open>null\<close> becomes 0.
\<close>

definition ToNumber_action :: "AuditLogAction \<Rightarrow> int" where
  "ToNumber_action a = (case a of None \<Rightarrow> 0 | Some n \<Rightarrow> n)"

text \<open>The result \<open>None\<close> is the \<^verbatim>\<open>null\<close> of the last line.\<close>

definition targetType :: "AuditLogAction \<Rightarrow> AuditLogTargetType option" where
  "targetType target =
     (if ToNumber_action target < 10 then Some GUILD
      else if ToNumber_action target < 20 then Some CHANNEL
      else if ToNumber_action target < 30 then Some USER
      else if ToNumber_action target < 40 then Some ROLE
      else if ToNumber_action target < 50 then Some INVITE
      else if ToNumber_action target < 60 then Some WEBHOOK
      else if ToNumber_action target < 70 then Some EMOJI
      else if ToNumber_action target < 80 then Some MESSAGE
      else if ToNumber_action target < 90 then Some INTEGRATION
      else None)"

text \<open>\<^verbatim>\<open>Array.prototype.includes\<close> compares an action code with the members by identity.\<close>

definition actionType :: "AuditLogAction \<Rightarrow> AuditLogActionType" where
  "actionType action =
     (if action \<in> set
        [CHANNEL_CREATE, CHANNEL_OVERWRITE_CREATE, MEMBER_BAN_REMOVE, BOT_ADD, ROLE_CREATE,
         INVITE_CREATE, WEBHOOK_CREATE, EMOJI_CREATE, MESSAGE_PIN, INTEGRATION_CREATE]
      then CREATE
      else if action \<in> set
        [CHANNEL_DELETE, CHANNEL_OVERWRITE_DELETE, MEMBER_KICK, MEMBER_PRUNE, MEMBER_BAN_ADD,
         MEMBER_DISCONNECT, ROLE_DELETE, INVITE_DELETE, WEBHOOK_DELETE, EMOJI_DELETE,
         MESSAGE_DELETE, MESSAGE_BULK_DELETE, MESSAGE_UNPIN, INTEGRATION_DELETE]
      then DELETE
      else if action \<in> set
        [GUILD_UPDATE, CHANNEL_UPDATE, CHANNEL_OVERWRITE_UPDATE, MEMBER_UPDATE,
         MEMBER_ROLE_UPDATE, MEMBER_MOVE, ROLE_UPDATE, INVITE_UPDATE, WEBHOOK_UPDATE,
         EMOJI_UPDATE, INTEGRATION_UPDATE]
      then UPDATE
      else ACTIONTYPE_ALL)"

subsection \<open>Entities, collections and the guild context\<close>

text \<open>Every exception raised in this module is a \<^verbatim>\<open>TypeError\<close>.\<close>

datatype error = TypeError

text \<open>
  Modelled from the spec: the entity classes (\<^verbatim>\<open>User\<close>, \<^verbatim>\<open>Webhook\<close>, \<^verbatim>\<open>Integration\<close>,
  \<^verbatim>\<open>Invite\<close>, ...) are external collaborators invoked as constructors. An entity is the
  constructor call itself: the class and the data object it is built from.
\<close>

datatype entity_class =
  User | Guild | Channel | GuildMember | Role | Emoji | Webhook | Integration | Invite

datatype entity = Entity entity_class obj

text \<open>
  Modelled from the spec: \<^verbatim>\<open>util/Collection\<close>, a \<^verbatim>\<open>Map\<close>: insertion order is preserved and a
  later \<^verbatim>\<open>set\<close> with a colliding key overwrites the earlier value (in the earlier place);
  \<^verbatim>\<open>get\<close> answers \<^verbatim>\<open>undefined\<close> (\<open>None\<close>) for a key that is not there.
\<close>

type_synonym 'v Collection = "(jsval \<times> 'v) list"

definition Collection_get :: "'v Collection \<Rightarrow> jsval \<Rightarrow> 'v option" where
  "Collection_get c k = map_of c k"

fun Collection_set :: "'v Collection \<Rightarrow> jsval \<Rightarrow> 'v \<Rightarrow> 'v Collection" where
  "Collection_set [] k v = [(k, v)]"
| "Collection_set (p # ps) k v =
     (if fst p = k then (k, v) # ps else p # Collection_set ps k v)"

text \<open>
  The guild context: \<^verbatim>\<open>guild.id\<close>, the client-level caches \<^verbatim>\<open>guild.client.users\<close>,
  \<^verbatim>\<open>guild.client.guilds\<close>, \<^verbatim>\<open>guild.client.channels\<close>, and the guild's own collections.
\<close>

record GuildContext =
  g_id :: string
  g_client_users :: "entity Collection"
  g_client_guilds :: "entity Collection"
  g_client_channels :: "entity Collection"
  g_channels :: "entity Collection"
  g_members :: "entity Collection"
  g_roles :: "entity Collection"
  g_emojis :: "entity Collection"

text \<open>
  The property \<^verbatim>\<open>guild[`${targetType.toLowerCase()}s`]\<close>. A guild has collections named
  \<^verbatim>\<open>channels\<close>, \<^verbatim>\<open>roles\<close> and \<^verbatim>\<open>emojis\<close>; the other names built this way
  (\<^verbatim>\<open>guilds\<close>, \<^verbatim>\<open>users\<close>, \<^verbatim>\<open>invites\<close>, ...) are no property of a guild (\<open>None\<close>).
\<close>

fun guild_collection :: "GuildContext \<Rightarrow> AuditLogTargetType \<Rightarrow> entity Collection option" where
  "guild_collection guild CHANNEL = Some (g_channels guild)"
| "guild_collection guild ROLE = Some (g_roles guild)"
| "guild_collection guild EMOJI = Some (g_emojis guild)"
| "guild_collection guild t = None"

subsection \<open>Raw records and entries\<close>

text \<open>A raw change \<^verbatim>\<open>{key, old_value, new_value}\<close> and the normalised \<^verbatim>\<open>{key, old, new}\<close>.\<close>

record RawChange =
  c_key :: string
  c_old_value :: jsval
  c_new_value :: jsval

record AuditLogChange =
  ch_key :: string
  ch_old :: jsval
  ch_new :: jsval

text \<open>
  A raw entry. An absent field reads as \<open>JUndefined\<close>; \<open>d_changes\<close> and \<open>d_options\<close> are
  \<open>None\<close> when the field is absent or \<^verbatim>\<open>null\<close>.
\<close>

record RawEntry =
  d_action_type :: AuditLogAction
  d_reason :: jsval
  d_user_id :: jsval
  d_changes :: "RawChange list option"
  d_id :: jsval
  d_target_id :: jsval
  d_options :: "obj option"

text \<open>
  What a field that holds an entity or a plain object can be: \<^verbatim>\<open>undefined\<close> (a cache miss
  stored as it is), \<^verbatim>\<open>null\<close>, an entity, or an object literal.
\<close>

datatype ref = RUndefined | RNull | REntity entity | RObject obj

text \<open>
  The shapes of \<^verbatim>\<open>extra\<close>: \<^verbatim>\<open>null\<close>, \<^verbatim>\<open>{removed, days}\<close>, \<^verbatim>\<open>{channel, count}\<close>,
  \<^verbatim>\<open>{channel, messageID}\<close>, \<^verbatim>\<open>{count}\<close>, and a member or role (cached, or an object literal).
\<close>

datatype extra =
    ExtraNull
  | ExtraRemovedDays jsnum jsnum
  | ExtraChannelCount ref jsnum
  | ExtraChannelMessageID ref jsval
  | ExtraCount jsnum
  | ExtraOverwrite ref

record GuildAuditLogsEntry =
  e_targetType :: "AuditLogTargetType option"
  e_actionType :: AuditLogActionType
  e_action :: "string option"
  e_reason :: jsval
  e_executor :: "entity option"
  e_changes :: "AuditLogChange list option"
  e_id :: jsval
  e_extra :: extra
  e_target :: ref

record GuildAuditLogs =
  l_webhooks :: "entity Collection"
  l_integrations :: "entity Collection"
  l_entries :: "GuildAuditLogsEntry Collection"

subsection \<open>\<^verbatim>\<open>GuildAuditLogsEntry.constructor\<close>\<close>

text \<open>\<^verbatim>\<open>Object.keys(Actions).find(k => Actions[k] === data.action_type)\<close>\<close>

definition action_name :: "AuditLogAction \<Rightarrow> string option" where
  "action_name a = map_option fst (find (\<lambda>kv. snd kv = a) Actions)"

text \<open>\<^verbatim>\<open>c => ({ key: c.key, old: c.old_value, new: c.new_value })\<close>\<close>

definition change_of :: "RawChange \<Rightarrow> AuditLogChange" where
  "change_of c = \<lparr>ch_key = c_key c, ch_old = c_old_value c, ch_new = c_new_value c\<rparr>"

text \<open>
  The callback of every \<^verbatim>\<open>this.changes.reduce\<close>:
  \<^verbatim>\<open>(o, c) => { o[c.key] = c.new || c.old; return o; }\<close>, folded from the left over an
  initial object.
\<close>

definition reduce_changes :: "AuditLogChange list \<Rightarrow> obj \<Rightarrow> obj" where
  "reduce_changes cs init =
     foldl (\<lambda>ob c. obj_set ob (ch_key c) (if truthy (ch_new c) then ch_new c else ch_old c))
       init cs"

text \<open>\<^verbatim>\<open>collection.get(k) || { ... }\<close> and \<^verbatim>\<open>collection.get(k)\<close> as stored in a field.\<close>

definition get_or :: "entity Collection \<Rightarrow> jsval \<Rightarrow> obj \<Rightarrow> ref" where
  "get_or c k alt = (case Collection_get c k of Some e \<Rightarrow> REntity e | None \<Rightarrow> RObject alt)"

definition get_ref :: "entity Collection \<Rightarrow> jsval \<Rightarrow> ref" where
  "get_ref c k = (case Collection_get c k of Some e \<Rightarrow> REntity e | None \<Rightarrow> RUndefined)"

text \<open>
  The \<^verbatim>\<open>switch (data.action_type)\<close> that fills \<^verbatim>\<open>this.extra\<close>. Reading a property of
  \<^verbatim>\<open>data.options\<close> throws when the record has no options.
\<close>

definition entry_extra :: "GuildContext \<Rightarrow> RawEntry \<Rightarrow> error + extra" where
  "entry_extra guild data =
     (if d_action_type data = MEMBER_PRUNE then
        (case d_options data of
           None \<Rightarrow> Inl TypeError
         | Some opts \<Rightarrow>
             Inr (ExtraRemovedDays (Number (obj_get opts ''members_removed''))
                    (Number (obj_get opts ''delete_member_days''))))
      else if d_action_type data \<in> set [MEMBER_MOVE, MESSAGE_DELETE, MESSAGE_BULK_DELETE] then
        (case d_options data of
           None \<Rightarrow> Inl TypeError
         | Some opts \<Rightarrow>
             Inr (ExtraChannelCount
                    (get_or (g_channels guild) (obj_get opts ''channel_id'')
                       [(''id'', obj_get opts ''channel_id'')])
                    (Number (obj_get opts ''count''))))
      else if d_action_type data \<in> set [MESSAGE_PIN, MESSAGE_UNPIN] then
        (case d_options data of
           None \<Rightarrow> Inl TypeError
         | Some opts \<Rightarrow>
             Inr (ExtraChannelMessageID
                    (get_or (g_client_channels guild) (obj_get opts ''channel_id'')
                       [(''id'', obj_get opts ''channel_id'')])
                    (obj_get opts ''message_id'')))
      else if d_action_type data = MEMBER_DISCONNECT then
        (case d_options data of
           None \<Rightarrow> Inl TypeError
         | Some opts \<Rightarrow> Inr (ExtraCount (Number (obj_get opts ''count''))))
      else if d_action_type data \<in>
           set [CHANNEL_OVERWRITE_CREATE, CHANNEL_OVERWRITE_UPDATE, CHANNEL_OVERWRITE_DELETE] then
        (case d_options data of
           None \<Rightarrow> Inl TypeError
         | Some opts \<Rightarrow>
             (if obj_get opts ''type'' = JStr ''member'' then
                Inr (ExtraOverwrite
                       (get_or (g_members guild) (obj_get opts ''id'')
                          [(''id'', obj_get opts ''id''), (''type'', JStr ''member'')]))
              else if obj_get opts ''type'' = JStr ''role'' then
                Inr (ExtraOverwrite
                       (get_or (g_roles guild) (obj_get opts ''id'')
                          [(''id'', obj_get opts ''id''),
                           (''name'', obj_get opts ''role_name''),
                           (''type'', JStr ''role'')]))
              else Inr ExtraNull))
      else Inr ExtraNull)"

text \<open>
  The chain of tests that fills \<^verbatim>\<open>this.target\<close>, given the target type and
  \<^verbatim>\<open>this.changes\<close>. Calling \<^verbatim>\<open>reduce\<close> on a \<^verbatim>\<open>null\<close> change list throws; so do the
  assignment \<^verbatim>\<open>this.target.id = ...\<close> of the first branch (the target is still \<^verbatim>\<open>null\<close>
  there) and \<^verbatim>\<open>targetType.toLowerCase()\<close> of the last one when the target type is \<^verbatim>\<open>null\<close>.
\<close>

definition entry_target ::
  "GuildAuditLogs \<Rightarrow> GuildContext \<Rightarrow> RawEntry \<Rightarrow> AuditLogTargetType option \<Rightarrow>
   AuditLogChange list option \<Rightarrow> error + ref" where
  "entry_target logs guild data tt changes =
     (if tt = Some UNKNOWN then
        (case changes of
           None \<Rightarrow> Inl TypeError
         | Some cs \<Rightarrow> Inl TypeError)
      else if tt = Some USER \<and> truthy (d_target_id data) then
        Inr (get_ref (g_client_users guild) (d_target_id data))
      else if tt = Some GUILD then
        Inr (get_ref (g_client_guilds guild) (d_target_id data))
      else if tt = Some WEBHOOK then
        (case Collection_get (l_webhooks logs) (d_target_id data) of
           Some hook \<Rightarrow> Inr (REntity hook)
         | None \<Rightarrow>
             (case changes of
                None \<Rightarrow> Inl TypeError
              | Some cs \<Rightarrow>
                  Inr (REntity (Entity Webhook
                    (reduce_changes cs
                       [(''id'', d_target_id data), (''guild_id'', JStr (g_id guild))])))))
      else if tt = Some INVITE then
        (case changes of
           None \<Rightarrow> Inl TypeError
         | Some cs \<Rightarrow>
             (let changes' =
                reduce_changes cs
                  [(''id'', d_target_id data), (''guild'', JGuildObject (g_id guild))]
              in Inr (REntity (Entity Invite
                   (obj_set changes' ''channel''
                      (JObj [(''id'', obj_get changes' ''channel_id'')]))))))
      else if tt = Some MESSAGE then
        (if d_action_type data = MESSAGE_BULK_DELETE
         then Inr (get_or (g_channels guild) (d_target_id data) [(''id'', d_target_id data)])
         else Inr (get_ref (g_client_users guild) (d_target_id data)))
      else if tt = Some INTEGRATION then
        (case Collection_get (l_integrations logs) (d_target_id data) of
           Some integration \<Rightarrow> Inr (REntity integration)
         | None \<Rightarrow>
             (case changes of
                None \<Rightarrow> Inl TypeError
              | Some cs \<Rightarrow>
                  Inr (REntity (Entity Integration
                    (reduce_changes cs [(''id'', d_target_id data)])))))
      else if truthy (d_target_id data) then
        (case tt of
           None \<Rightarrow> Inl TypeError
         | Some t \<Rightarrow>
             (case guild_collection guild t of
                None \<Rightarrow> Inl TypeError
              | Some c \<Rightarrow> Inr (get_or c (d_target_id data) [(''id'', d_target_id data)])))
      else Inr RNull)"

text \<open>The constructor: the fields in the order the source assigns them.\<close>

definition GuildAuditLogsEntry_new ::
  "GuildAuditLogs \<Rightarrow> GuildContext \<Rightarrow> RawEntry \<Rightarrow> error + GuildAuditLogsEntry" where
  "GuildAuditLogsEntry_new logs guild data =
     (let tt = targetType (d_action_type data);
          changes = map_option (map change_of) (d_changes data)
      in case entry_extra guild data of
           Inl err \<Rightarrow> Inl err
         | Inr ex \<Rightarrow>
             (case entry_target logs guild data tt changes of
                Inl err \<Rightarrow> Inl err
              | Inr tg \<Rightarrow>
                  Inr \<lparr>e_targetType = tt,
                       e_actionType = actionType (d_action_type data),
                       e_action = action_name (d_action_type data),
                       e_reason = (if truthy (d_reason data) then d_reason data else JNull),
                       e_executor = Collection_get (g_client_users guild) (d_user_id data),
                       e_changes = changes,
                       e_id = d_id data,
                       e_extra = ex,
                       e_target = tg\<rparr>))"

subsection \<open>\<^verbatim>\<open>GuildAuditLogs.constructor\<close>\<close>

text \<open>
  The batch payload \<^verbatim>\<open>{ users?, webhooks?, integrations?, audit_log_entries }\<close>; an optional
  array is \<open>None\<close> when absent.
\<close>

record RawBatch =
  b_users :: "obj list option"
  b_webhooks :: "obj list option"
  b_integrations :: "obj list option"
  b_audit_log_entries :: "RawEntry list"

text \<open>
  Modelled from the spec: \<^verbatim>\<open>guild.client.dataManager.newUser\<close>, the upsert of the client's
  shared user cache: a user whose id is cached already creates no second entity, a new one is
  constructed and stored under its id. It is the one place where the constructor writes to
  the guild context, so the constructor returns the context too.
\<close>

definition newUser :: "GuildContext \<Rightarrow> obj \<Rightarrow> GuildContext" where
  "newUser guild user =
     (case Collection_get (g_client_users guild) (obj_get user ''id'') of
        Some u \<Rightarrow> guild
      | None \<Rightarrow>
          guild\<lparr>g_client_users :=
            Collection_set (g_client_users guild) (obj_get user ''id'') (Entity User user)\<rparr>)"

text \<open>
  The loop over \<^verbatim>\<open>data.audit_log_entries\<close>: one entry is constructed per item and stored
  under its id; an exception of the entry constructor leaves the loop.
\<close>

fun entries_loop ::
  "GuildAuditLogs \<Rightarrow> GuildContext \<Rightarrow> RawEntry list \<Rightarrow> error + GuildAuditLogs" where
  "entries_loop logs guild [] = Inr logs"
| "entries_loop logs guild (item # items) =
     (case GuildAuditLogsEntry_new logs guild item of
        Inl err \<Rightarrow> Inl err
      | Inr entry \<Rightarrow>
          entries_loop
            (logs\<lparr>l_entries := Collection_set (l_entries logs) (e_id entry) entry\<rparr>)
            guild items)"

text \<open>
  The three loops that precede it: \<^verbatim>\<open>if (data.users) ...\<close>, \<^verbatim>\<open>if (data.webhooks) ...\<close>
  and \<^verbatim>\<open>if (data.integrations) ...\<close>; an array, even an empty one, is truthy.
\<close>

definition register_users :: "GuildContext \<Rightarrow> obj list option \<Rightarrow> GuildContext" where
  "register_users guild users = (case users of None \<Rightarrow> guild | Some us \<Rightarrow> foldl newUser guild us)"

definition webhooks_cache :: "obj list option \<Rightarrow> entity Collection" where
  "webhooks_cache webhooks =
     (case webhooks of
        None \<Rightarrow> []
      | Some hooks \<Rightarrow>
          foldl (\<lambda>c hook. Collection_set c (obj_get hook ''id'') (Entity Webhook hook)) [] hooks)"

definition integrations_cache :: "obj list option \<Rightarrow> entity Collection" where
  "integrations_cache integrations =
     (case integrations of
        None \<Rightarrow> []
      | Some is \<Rightarrow>
          foldl (\<lambda>c integration.
                   Collection_set c (obj_get integration ''id'') (Entity Integration integration))
            [] is)"

text \<open>
  The constructor returns the guild context as the user upsert left it, and the batch
  container or the exception of the first entry that throws.
\<close>

definition GuildAuditLogs_new ::
  "GuildContext \<Rightarrow> RawBatch \<Rightarrow> GuildContext \<times> (error + GuildAuditLogs)" where
  "GuildAuditLogs_new guild data =
     (let guild' = register_users guild (b_users data)
      in (guild',
          entries_loop
            \<lparr>l_webhooks = webhooks_cache (b_webhooks data),
             l_integrations = integrations_cache (b_integrations data),
             l_entries = []\<rparr>
            guild' (b_audit_log_entries data)))"

subsection \<open>The accessors \<^verbatim>\<open>createdTimestamp\<close> and \<^verbatim>\<open>createdAt\<close>\<close>

text \<open>
  \<^verbatim>\<open>Snowflake.deconstruct\<close> is defined in \<^verbatim>\<open>util/Snowflake\<close>; the accessors take it as the
  parameter \<open>deconstruct\<close>. Its result has a field \<^verbatim>\<open>timestamp\<close>, and \<^verbatim>\<open>new Date(ms)\<close> is the
  constructor \<open>Date\<close> applied to the milliseconds.
\<close>

record DeconstructedSnowflake =
  timestamp :: int

datatype Date = Date int

definition createdTimestamp ::
  "(jsval \<Rightarrow> 'a DeconstructedSnowflake_scheme) \<Rightarrow> GuildAuditLogsEntry \<Rightarrow> int" where
  "createdTimestamp deconstruct this = timestamp (deconstruct (e_id this))"

definition createdAt ::
  "(jsval \<Rightarrow> 'a DeconstructedSnowflake_scheme) \<Rightarrow> GuildAuditLogsEntry \<Rightarrow> Date" where
  "createdAt deconstruct this = Date (createdTimestamp deconstruct this)"

subsection \<open>Concrete inputs\<close>

text \<open>
  A guild context with one cached user, guild and channel, a batch container with empty
  caches, and a raw \<^verbatim>\<open>GUILD_UPDATE\<close> record; the closed theorems below vary them field by field.
\<close>

definition example_guild :: GuildContext where
  "example_guild =
     \<lparr>g_id = ''G1'',
      g_client_users = [(JStr ''U1'', Entity User [(''id'', JStr ''U1'')])],
      g_client_guilds = [(JStr ''G1'', Entity Guild [(''id'', JStr ''G1'')])],
      g_client_channels = [(JStr ''C1'', Entity Channel [(''id'', JStr ''C1'')])],
      g_channels = [(JStr ''C1'', Entity Channel [(''id'', JStr ''C1'')])],
      g_members = [],
      g_roles = [],
      g_emojis = []\<rparr>"

definition example_logs :: GuildAuditLogs where
  "example_logs = \<lparr>l_webhooks = [], l_integrations = [], l_entries = []\<rparr>"

definition example_entry :: RawEntry where
  "example_entry =
     \<lparr>d_action_type = GUILD_UPDATE,
      d_reason = JUndefined,
      d_user_id = JStr ''U1'',
      d_changes = None,
      d_id = JStr ''1'',
      d_target_id = JStr ''G1'',
      d_options = None\<rparr>"

text \<open>
  A batch of three records whose ids are \<^verbatim>\<open>"3"\<close>, \<^verbatim>\<open>"1"\<close>, \<^verbatim>\<open>"2"\<close> in this order, with one
  user payload.
\<close>

definition example_batch :: RawBatch where
  "example_batch =
     \<lparr>b_users = Some [[(''id'', JStr ''U2'')]],
      b_webhooks = None,
      b_integrations = None,
      b_audit_log_entries =
        [example_entry\<lparr>d_id := JStr ''3''\<rparr>,
         example_entry\<lparr>d_id := JStr ''1'', d_user_id := JStr ''U2''\<rparr>,
         example_entry\<lparr>d_id := JStr ''2'', d_reason := JStr ''cleanup''\<rparr>]\<rparr>"

text \<open>
  One possible decoder, for concrete evaluation only: the decimal id without its low 22 bits,
  counted from a fixed epoch.
\<close>

definition example_deconstruct :: "jsval \<Rightarrow> DeconstructedSnowflake" where
  "example_deconstruct v =
     \<lparr>timestamp = (case v of JStr s \<Rightarrow> decimal_val s div 4194304 + 1420070400000 | _ \<Rightarrow> 0)\<rparr>"

section \<open>Properties\<close>

subsection \<open>Classification of action codes\<close>

lemma targetType_ranges:
  "(targetType (Some n) = Some GUILD \<longleftrightarrow> n < 10) \<and>
   (targetType (Some n) = Some CHANNEL \<longleftrightarrow> 10 \<le> n \<and> n < 20) \<and>
   (targetType (Some n) = Some USER \<longleftrightarrow> 20 \<le> n \<and> n < 30) \<and>
   (targetType (Some n) = Some ROLE \<longleftrightarrow> 30 \<le> n \<and> n < 40) \<and>
   (targetType (Some n) = Some INVITE \<longleftrightarrow> 40 \<le> n \<and> n < 50) \<and>
   (targetType (Some n) = Some WEBHOOK \<longleftrightarrow> 50 \<le> n \<and> n < 60) \<and>
   (targetType (Some n) = Some EMOJI \<longleftrightarrow> 60 \<le> n \<and> n < 70) \<and>
   (targetType (Some n) = Some MESSAGE \<longleftrightarrow> 70 \<le> n \<and> n < 80) \<and>
   (targetType (Some n) = Some INTEGRATION \<longleftrightarrow> 80 \<le> n \<and> n < 90) \<and>
   (targetType (Some n) = None \<longleftrightarrow> 90 \<le> n)"
  by (simp add: targetType_def ToNumber_action_def)

lemma actionType_sets:
  "(actionType (Some n) = CREATE \<longleftrightarrow> n \<in> {10, 13, 23, 28, 30, 40, 50, 60, 74, 80}) \<and>
   (actionType (Some n) = DELETE \<longleftrightarrow>
      n \<in> {12, 15, 20, 21, 22, 27, 32, 42, 52, 62, 72, 73, 75, 82}) \<and>
   (actionType (Some n) = UPDATE \<longleftrightarrow> n \<in> {1, 11, 14, 24, 25, 26, 31, 41, 51, 61, 81}) \<and>
   (actionType (Some n) = ACTIONTYPE_ALL \<longleftrightarrow>
      n \<notin> {10, 13, 23, 28, 30, 40, 50, 60, 74, 80} \<union>
          {12, 15, 20, 21, 22, 27, 32, 42, 52, 62, 72, 73, 75, 82} \<union>
          {1, 11, 14, 24, 25, 26, 31, 41, 51, 61, 81})"
  by (auto simp: actionType_def)

text \<open>The whole table, every name with its target type and action type.\<close>

lemma Actions_classified:
  "map (\<lambda>(k, a). (k, targetType a, actionType a)) Actions =
    [(''ALL'', Some GUILD, ACTIONTYPE_ALL),
     (''GUILD_UPDATE'', Some GUILD, UPDATE),
     (''CHANNEL_CREATE'', Some CHANNEL, CREATE),
     (''CHANNEL_UPDATE'', Some CHANNEL, UPDATE),
     (''CHANNEL_DELETE'', Some CHANNEL, DELETE),
     (''CHANNEL_OVERWRITE_CREATE'', Some CHANNEL, CREATE),
     (''CHANNEL_OVERWRITE_UPDATE'', Some CHANNEL, UPDATE),
     (''CHANNEL_OVERWRITE_DELETE'', Some CHANNEL, DELETE),
     (''MEMBER_KICK'', Some USER, DELETE),
     (''MEMBER_PRUNE'', Some USER, DELETE),
     (''MEMBER_BAN_ADD'', Some USER, DELETE),
     (''MEMBER_BAN_REMOVE'', Some USER, CREATE),
     (''MEMBER_UPDATE'', Some USER, UPDATE),
     (''MEMBER_ROLE_UPDATE'', Some USER, UPDATE),
     (''MEMBER_MOVE'', Some USER, UPDATE),
     (''MEMBER_DISCONNECT'', Some USER, DELETE),
     (''BOT_ADD'', Some USER, CREATE),
     (''ROLE_CREATE'', Some ROLE, CREATE),
     (''ROLE_UPDATE'', Some ROLE, UPDATE),
     (''ROLE_DELETE'', Some ROLE, DELETE),
     (''INVITE_CREATE'', Some INVITE, CREATE),
     (''INVITE_UPDATE'', Some INVITE, UPDATE),
     (''INVITE_DELETE'', Some INVITE, DELETE),
     (''WEBHOOK_CREATE'', Some WEBHOOK, CREATE),
     (''WEBHOOK_UPDATE'', Some WEBHOOK, UPDATE),
     (''WEBHOOK_DELETE'', Some WEBHOOK, DELETE),
     (''EMOJI_CREATE'', Some EMOJI, CREATE),
     (''EMOJI_UPDATE'', Some EMOJI, UPDATE),
     (''EMOJI_DELETE'', Some EMOJI, DELETE),
     (''MESSAGE_DELETE'', Some MESSAGE, DELETE),
     (''MESSAGE_BULK_DELETE'', Some MESSAGE, DELETE),
     (''MESSAGE_PIN'', Some MESSAGE, CREATE),
     (''MESSAGE_UNPIN'', Some MESSAGE, DELETE),
     (''INTEGRATION_CREATE'', Some INTEGRATION, CREATE),
     (''INTEGRATION_UPDATE'', Some INTEGRATION, UPDATE),
     (''INTEGRATION_DELETE'', Some INTEGRATION, DELETE)]"
  by (simp add: Actions_def targetType_def ToNumber_action_def actionType_def)

text \<open>
  Claim C2. For every integer action code, and so for every code of the table,
  \<open>targetType\<close> answers by the half-open ranges: below 10 \<open>GUILD\<close>, then \<open>CHANNEL\<close>, \<open>USER\<close>,
  \<open>ROLE\<close>, \<open>INVITE\<close>, \<open>WEBHOOK\<close>, \<open>EMOJI\<close>, \<open>MESSAGE\<close>, \<open>INTEGRATION\<close> in steps of ten, and no
  family from 90 on; \<open>actionType\<close> answers \<open>CREATE\<close>, \<open>DELETE\<close> or \<open>UPDATE\<close> exactly when the code
  is a member of the corresponding set, and \<open>ALL\<close> exactly when it is in none of the three.
\<close>

theorem action_code_classification:
  "((targetType (Some n) = Some GUILD \<longleftrightarrow> n < 10) \<and>
    (targetType (Some n) = Some CHANNEL \<longleftrightarrow> 10 \<le> n \<and> n < 20) \<and>
    (targetType (Some n) = Some USER \<longleftrightarrow> 20 \<le> n \<and> n < 30) \<and>
    (targetType (Some n) = Some ROLE \<longleftrightarrow> 30 \<le> n \<and> n < 40) \<and>
    (targetType (Some n) = Some INVITE \<longleftrightarrow> 40 \<le> n \<and> n < 50) \<and>
    (targetType (Some n) = Some WEBHOOK \<longleftrightarrow> 50 \<le> n \<and> n < 60) \<and>
    (targetType (Some n) = Some EMOJI \<longleftrightarrow> 60 \<le> n \<and> n < 70) \<and>
    (targetType (Some n) = Some MESSAGE \<longleftrightarrow> 70 \<le> n \<and> n < 80) \<and>
    (targetType (Some n) = Some INTEGRATION \<longleftrightarrow> 80 \<le> n \<and> n < 90) \<and>
    (targetType (Some n) = None \<longleftrightarrow> 90 \<le> n)) \<and>
   ((actionType (Some n) = CREATE \<longleftrightarrow> n \<in> {10, 13, 23, 28, 30, 40, 50, 60, 74, 80}) \<and>
    (actionType (Some n) = DELETE \<longleftrightarrow>
       n \<in> {12, 15, 20, 21, 22, 27, 32, 42, 52, 62, 72, 73, 75, 82}) \<and>
    (actionType (Some n) = UPDATE \<longleftrightarrow> n \<in> {1, 11, 14, 24, 25, 26, 31, 41, 51, 61, 81}) \<and>
    (actionType (Some n) = ACTIONTYPE_ALL \<longleftrightarrow>
       n \<notin> {10, 13, 23, 28, 30, 40, 50, 60, 74, 80} \<union>
           {12, 15, 20, 21, 22, 27, 32, 42, 52, 62, 72, 73, 75, 82} \<union>
           {1, 11, 14, 24, 25, 26, 31, 41, 51, 61, 81}))"
  using targetType_ranges [of n] actionType_sets [of n] by (rule conjI)

subsection \<open>Fields of a resolved entry\<close>

lemma entry_fields:
  "GuildAuditLogsEntry_new logs guild data = Inr e \<Longrightarrow>
     e_id e = d_id data \<and> e_targetType e = targetType (d_action_type data) \<and>
     e_actionType e = actionType (d_action_type data)"
  by (auto simp: GuildAuditLogsEntry_new_def Let_def split: sum.splits)

lemma entry_changes:
  "GuildAuditLogsEntry_new logs guild data = Inr e \<Longrightarrow>
     e_changes e = map_option (map change_of) (d_changes data)"
  by (auto simp: GuildAuditLogsEntry_new_def Let_def split: sum.splits)

lemma extra_null_outside_switch:
  "d_action_type data \<notin> set [MEMBER_PRUNE, MEMBER_MOVE, MESSAGE_DELETE, MESSAGE_BULK_DELETE,
      MESSAGE_PIN, MESSAGE_UNPIN, MEMBER_DISCONNECT, CHANNEL_OVERWRITE_CREATE,
      CHANNEL_OVERWRITE_UPDATE, CHANNEL_OVERWRITE_DELETE] \<Longrightarrow>
   entry_extra guild data = Inr ExtraNull"
  by (simp add: entry_extra_def)

lemma targetType_cases:
  "targetType a = Some WEBHOOK \<longleftrightarrow> (\<exists>n. a = Some n \<and> 50 \<le> n \<and> n < 60)"
  "targetType a = Some INVITE \<longleftrightarrow> (\<exists>n. a = Some n \<and> 40 \<le> n \<and> n < 50)"
  "targetType a = Some INTEGRATION \<longleftrightarrow> (\<exists>n. a = Some n \<and> 80 \<le> n \<and> n < 90)"
  "targetType a = None \<longleftrightarrow> (\<exists>n. a = Some n \<and> 90 \<le> n)"
  by (cases a; simp add: targetType_def ToNumber_action_def)+

subsection \<open>The change list\<close>

text \<open>
  Claim C3, as amended. The entry's \<open>changes\<close> is \<^verbatim>\<open>null\<close> exactly when the raw record carries
  no changes field; an empty raw list stays an empty list; a present list is mapped element by
  element, \<^verbatim>\<open>{key, old_value, new_value}\<close> to \<^verbatim>\<open>{key, old, new}\<close>, in source order.
\<close>

theorem changes_null_iff_absent:
  assumes "GuildAuditLogsEntry_new logs guild data = Inr e"
  shows "(e_changes e = None \<longleftrightarrow> d_changes data = None) \<and>
         (d_changes data = Some [] \<longrightarrow> e_changes e = Some []) \<and>
         (\<forall>cs. d_changes data = Some cs \<longrightarrow>
            (\<exists>es. e_changes e = Some es \<and> length es = length cs \<and>
               (\<forall>i < length cs.
                  ch_key (es ! i) = c_key (cs ! i) \<and>
                  ch_old (es ! i) = c_old_value (cs ! i) \<and>
                  ch_new (es ! i) = c_new_value (cs ! i))))"
  using entry_changes [OF assms] by (auto simp: change_of_def)

lemma example_two_changes:
  "GuildAuditLogsEntry_new example_logs example_guild
     (example_entry\<lparr>d_changes := Some
        [\<lparr>c_key = ''name'', c_old_value = JStr ''a'', c_new_value = JStr ''b''\<rparr>,
         \<lparr>c_key = ''afk_timeout'', c_old_value = JNum 60, c_new_value = JNum 300\<rparr>]\<rparr>) =
   Inr \<lparr>e_targetType = Some GUILD,
        e_actionType = UPDATE,
        e_action = Some ''GUILD_UPDATE'',
        e_reason = JNull,
        e_executor = Some (Entity User [(''id'', JStr ''U1'')]),
        e_changes = Some
          [\<lparr>ch_key = ''name'', ch_old = JStr ''a'', ch_new = JStr ''b''\<rparr>,
           \<lparr>ch_key = ''afk_timeout'', ch_old = JNum 60, ch_new = JNum 300\<rparr>],
        e_id = JStr ''1'',
        e_extra = ExtraNull,
        e_target = REntity (Entity Guild [(''id'', JStr ''G1'')])\<rparr>"
  by (simp add: GuildAuditLogsEntry_new_def entry_extra_def entry_target_def
      targetType_def ToNumber_action_def actionType_def action_name_def Actions_def
      example_entry_def example_guild_def example_logs_def get_ref_def Collection_get_def
      change_of_def)

theorem changes_null_iff_absent_witness:
  "\<exists>e. GuildAuditLogsEntry_new example_logs example_guild
         (example_entry\<lparr>d_changes := Some
            [\<lparr>c_key = ''name'', c_old_value = JStr ''a'', c_new_value = JStr ''b''\<rparr>,
             \<lparr>c_key = ''afk_timeout'', c_old_value = JNum 60, c_new_value = JNum 300\<rparr>]\<rparr>) =
         Inr e \<and>
       e_changes e \<noteq> None \<and>
       (\<exists>es. e_changes e = Some es \<and> length es = 2 \<and>
          ch_key (es ! 0) = ''name'' \<and> ch_key (es ! 1) = ''afk_timeout'')"
proof -
  let ?d = "example_entry\<lparr>d_changes := Some
        [\<lparr>c_key = ''name'', c_old_value = JStr ''a'', c_new_value = JStr ''b''\<rparr>,
         \<lparr>c_key = ''afk_timeout'', c_old_value = JNum 60, c_new_value = JNum 300\<rparr>]\<rparr>"
  obtain e where e: "GuildAuditLogsEntry_new example_logs example_guild ?d = Inr e"
    using example_two_changes by blast
  from changes_null_iff_absent [OF e] obtain es where
    "e_changes e \<noteq> None" "e_changes e = Some es" "length es = 2"
    "ch_key (es ! 0) = ''name''" "ch_key (es ! 1) = ''afk_timeout''"
    by (auto simp: example_entry_def)
  with e show ?thesis by blast
qed

text \<open>
  An empty raw change list is not turned into \<^verbatim>\<open>null\<close>: an array is truthy, so the entry
  carries the empty list.
\<close>

theorem empty_changes_counterexample:
  "GuildAuditLogsEntry_new example_logs example_guild (example_entry\<lparr>d_changes := Some []\<rparr>) =
   Inr \<lparr>e_targetType = Some GUILD,
        e_actionType = UPDATE,
        e_action = Some ''GUILD_UPDATE'',
        e_reason = JNull,
        e_executor = Some (Entity User [(''id'', JStr ''U1'')]),
        e_changes = Some [],
        e_id = JStr ''1'',
        e_extra = ExtraNull,
        e_target = REntity (Entity Guild [(''id'', JStr ''G1'')])\<rparr>"
  by (simp add: GuildAuditLogsEntry_new_def entry_extra_def entry_target_def
      targetType_def ToNumber_action_def actionType_def action_name_def Actions_def
      example_entry_def example_guild_def example_logs_def get_ref_def Collection_get_def)

subsection \<open>The action code \<^verbatim>\<open>null\<close>\<close>

text \<open>
  Claim C9. For a raw record whose action type is \<^verbatim>\<open>null\<close> the target type is \<open>GUILD\<close>
  (\<^verbatim>\<open>null < 10\<close> holds), the constructor returns, and the target is what the client's guild
  cache holds under the target id.
\<close>

theorem null_action_is_guild:
  assumes "d_action_type data = None"
  shows "targetType (d_action_type data) = Some GUILD \<and>
         (\<exists>e. GuildAuditLogsEntry_new logs guild data = Inr e \<and>
              e_targetType e = Some GUILD \<and>
              e_target e =
                (case Collection_get (g_client_guilds guild) (d_target_id data) of
                   Some g \<Rightarrow> REntity g | None \<Rightarrow> RUndefined))"
  using assms
  by (simp add: GuildAuditLogsEntry_new_def entry_extra_def entry_target_def targetType_def
      ToNumber_action_def get_ref_def)

theorem null_action_is_guild_witness:
  "\<exists>e. GuildAuditLogsEntry_new example_logs example_guild
         (example_entry\<lparr>d_action_type := None\<rparr>) = Inr e \<and>
       e_targetType e = Some GUILD \<and>
       e_target e = REntity (Entity Guild [(''id'', JStr ''G1'')])"
  using null_action_is_guild [of "example_entry\<lparr>d_action_type := None\<rparr>"
      example_logs example_guild]
  by (auto simp: example_entry_def example_guild_def Collection_get_def)

subsection \<open>Synthesised targets need a change list\<close>

text \<open>
  Claim C10. For a raw record whose target type is \<open>WEBHOOK\<close>, \<open>INVITE\<close> or \<open>INTEGRATION\<close>,
  whose target id is in neither batch cache where one is consulted, the constructor throws
  when the raw record has no changes field (\<^verbatim>\<open>reduce\<close> is called on \<^verbatim>\<open>null\<close>), and it returns
  an entry when the field is present.
\<close>

theorem synthesis_needs_changes:
  assumes fam: "targetType (d_action_type data) \<in> {Some WEBHOOK, Some INVITE, Some INTEGRATION}"
    and hook: "targetType (d_action_type data) = Some WEBHOOK \<longrightarrow>
                 Collection_get (l_webhooks logs) (d_target_id data) = None"
    and integ: "targetType (d_action_type data) = Some INTEGRATION \<longrightarrow>
                 Collection_get (l_integrations logs) (d_target_id data) = None"
  shows "(d_changes data = None \<longrightarrow> GuildAuditLogsEntry_new logs guild data = Inl TypeError) \<and>
         (d_changes data \<noteq> None \<longrightarrow> (\<exists>e. GuildAuditLogsEntry_new logs guild data = Inr e))"
proof -
  have ex: "entry_extra guild data = Inr ExtraNull"
    using fam by (intro extra_null_outside_switch) (auto simp: targetType_cases)
  show ?thesis
    using fam hook integ
    by (auto simp: GuildAuditLogsEntry_new_def ex entry_target_def Let_def)
qed

theorem synthesis_needs_changes_witness:
  "targetType WEBHOOK_CREATE = Some WEBHOOK \<and>
   Collection_get (l_webhooks example_logs) (JStr ''W1'') = None \<and>
   GuildAuditLogsEntry_new example_logs example_guild
     (example_entry\<lparr>d_action_type := WEBHOOK_CREATE, d_target_id := JStr ''W1''\<rparr>) =
     Inl TypeError"
proof -
  let ?d = "example_entry\<lparr>d_action_type := WEBHOOK_CREATE, d_target_id := JStr ''W1''\<rparr>"
  have tt: "targetType (d_action_type ?d) = Some WEBHOOK"
    by (simp add: targetType_def ToNumber_action_def)
  have miss: "Collection_get (l_webhooks example_logs) (d_target_id ?d) = None"
    by (simp add: example_logs_def Collection_get_def)
  have none: "d_changes ?d = None"
    by (simp add: example_entry_def)
  have "GuildAuditLogsEntry_new example_logs example_guild ?d = Inl TypeError"
    using synthesis_needs_changes [of ?d example_logs example_guild] tt miss none by simp
  then show ?thesis
    using tt miss by simp
qed

subsection \<open>Action codes outside the table\<close>

lemma not_in_Actions:
  "Some n \<notin> snd ` set Actions \<longleftrightarrow>
     n \<notin> {1, 10, 11, 12, 13, 14, 15, 20, 21, 22, 23, 24, 25, 26, 27, 28, 30, 31, 32, 40, 41, 42,
          50, 51, 52, 60, 61, 62, 72, 73, 74, 75, 80, 81, 82}"
  by (simp add: Actions_def)

lemma action_name_None:
  "a \<notin> snd ` set Actions \<Longrightarrow> action_name a = None"
  by (force simp: action_name_def find_None_iff)

lemma actionType_unmapped:
  "Some n \<notin> snd ` set Actions \<Longrightarrow> actionType (Some n) = ACTIONTYPE_ALL"
  by (simp add: not_in_Actions actionType_def)

lemma entry_unmapped_no_target:
  assumes "d_action_type data = Some n" "90 \<le> n" "\<not> truthy (d_target_id data)"
  shows "GuildAuditLogsEntry_new logs guild data =
           Inr \<lparr>e_targetType = None,
                e_actionType = ACTIONTYPE_ALL,
                e_action = None,
                e_reason = (if truthy (d_reason data) then d_reason data else JNull),
                e_executor = Collection_get (g_client_users guild) (d_user_id data),
                e_changes = map_option (map change_of) (d_changes data),
                e_id = d_id data,
                e_extra = ExtraNull,
                e_target = RNull\<rparr>"
proof -
  have out: "Some n \<notin> snd ` set Actions"
    using assms(2) by (simp add: not_in_Actions)
  have tt: "targetType (Some n) = None"
    using assms(2) by (simp add: targetType_def ToNumber_action_def)
  have ex: "entry_extra guild data = Inr ExtraNull"
    using assms(1,2) by (simp add: entry_extra_def)
  show ?thesis
    using assms(1,3)
    by (simp add: GuildAuditLogsEntry_new_def tt ex entry_target_def
        actionType_unmapped [OF out] action_name_None [OF out])
qed

text \<open>
  What does hold for the codes outside the table: the action type is \<open>ALL\<close> and no action
  name is found; the target type is the range bucket of the code, so it is \<^verbatim>\<open>null\<close> exactly
  from 90 on; and a record with such a code and no target id resolves, whatever its changes
  and options are, with a \<^verbatim>\<open>null\<close> target.
\<close>

lemma outside_table_classified:
  assumes "Some n \<notin> snd ` set Actions"
  shows "actionType (Some n) = ACTIONTYPE_ALL \<and>
         action_name (Some n) = None \<and>
         (targetType (Some n) = None \<longleftrightarrow> 90 \<le> n) \<and>
         (90 \<le> n \<and> d_action_type data = Some n \<and> \<not> truthy (d_target_id data) \<longrightarrow>
            (\<exists>e. GuildAuditLogsEntry_new logs guild data = Inr e \<and>
                 e_actionType e = ACTIONTYPE_ALL \<and> e_targetType e = None \<and>
                 e_target e = RNull))"
  using assms
  by (auto simp: actionType_unmapped action_name_None entry_unmapped_no_target
      targetType_def ToNumber_action_def)

text \<open>
  A code outside the table but below 90 has the target type of its range: the record with
  code 2 resolves as a \<open>GUILD\<close> entry.
\<close>

lemma outside_table_below_90_example:
  "Some 2 \<notin> snd ` set Actions \<and>
   GuildAuditLogsEntry_new example_logs example_guild (example_entry\<lparr>d_action_type := Some 2\<rparr>) =
     Inr \<lparr>e_targetType = Some GUILD,
          e_actionType = ACTIONTYPE_ALL,
          e_action = None,
          e_reason = JNull,
          e_executor = Some (Entity User [(''id'', JStr ''U1'')]),
          e_changes = None,
          e_id = JStr ''1'',
          e_extra = ExtraNull,
          e_target = REntity (Entity Guild [(''id'', JStr ''G1'')])\<rparr>"
  by (simp add: not_in_Actions GuildAuditLogsEntry_new_def entry_extra_def entry_target_def
      targetType_def ToNumber_action_def actionType_def action_name_def Actions_def
      example_entry_def example_guild_def example_logs_def get_ref_def Collection_get_def)

text \<open>
  Every record whose code is 90 or more and whose target id is truthy makes the constructor
  throw, whatever the guild, the changes and the options are: the target type is \<^verbatim>\<open>null\<close>, no
  branch of the chain matches it (the test against \<^verbatim>\<open>Targets.UNKNOWN\<close> never succeeds), and
  the last branch calls \<^verbatim>\<open>targetType.toLowerCase()\<close>.
\<close>

lemma unmapped_code_with_target_id:
  assumes "d_action_type data = Some n" "90 \<le> n" "truthy (d_target_id data)"
  shows "GuildAuditLogsEntry_new logs guild data = Inl TypeError"
proof -
  have tt: "targetType (Some n) = None"
    using assms(2) by (simp add: targetType_def ToNumber_action_def)
  have ex: "entry_extra guild data = Inr ExtraNull"
    using assms(1,2) by (simp add: entry_extra_def)
  show ?thesis
    using assms(1,3) by (simp add: GuildAuditLogsEntry_new_def tt ex entry_target_def)
qed

text \<open>
  Claim C1. The claim is that a raw record whose action code is outside the table, such as
  9999, resolves without raising for every record shape, with or without a target id, to an
  entry with action type \<open>ALL\<close> and an unmapped target type. The constructor does not do so:
  for the record \<^verbatim>\<open>{action_type: 9999, user_id: "U1", id: "1", target_id: "G1"}\<close> it throws a
  \<^verbatim>\<open>TypeError\<close> instead of returning an entry.
\<close>

theorem unmapped_with_target_id_throws:
  "GuildAuditLogsEntry_new example_logs example_guild
     \<lparr>d_action_type = Some 9999,
      d_reason = JUndefined,
      d_user_id = JStr ''U1'',
      d_changes = None,
      d_id = JStr ''1'',
      d_target_id = JStr ''G1'',
      d_options = None\<rparr> = Inl TypeError"
  by (simp add: GuildAuditLogsEntry_new_def entry_extra_def entry_target_def
      targetType_def ToNumber_action_def)

subsection \<open>\<^verbatim>\<open>MESSAGE_BULK_DELETE\<close> and \<^verbatim>\<open>WEBHOOK_CREATE\<close>\<close>

text \<open>
  Claim C4. For a raw record with action type 73, options whose \<^verbatim>\<open>channel_id\<close> is \<^verbatim>\<open>"C1"\<close> and
  whose \<^verbatim>\<open>count\<close> is \<^verbatim>\<open>"5"\<close>, and a guild whose channel cache holds \<open>c1\<close> under \<^verbatim>\<open>"C1"\<close>, the
  constructor returns an entry whose extra is \<^verbatim>\<open>{channel: c1, count: 5}\<close> with the number 5,
  and whose target is the guild channel cached under the target id, or \<^verbatim>\<open>{id: target_id}\<close>
  when there is none: a channel, not a user.
\<close>

theorem bulk_delete_extra_and_target:
  assumes "d_action_type data = MESSAGE_BULK_DELETE"
    and "d_options data = Some opts"
    and "obj_get opts ''channel_id'' = JStr ''C1''"
    and "obj_get opts ''count'' = JStr ''5''"
    and "Collection_get (g_channels guild) (JStr ''C1'') = Some c1"
  shows "\<exists>e. GuildAuditLogsEntry_new logs guild data = Inr e \<and>
             e_extra e = ExtraChannelCount (REntity c1) (Num 5) \<and>
             e_target e =
               (case Collection_get (g_channels guild) (d_target_id data) of
                  Some c \<Rightarrow> REntity c
                | None \<Rightarrow> RObject [(''id'', d_target_id data)]) \<and>
             (d_target_id data = JStr ''C1'' \<longrightarrow> e_target e = REntity c1)"
  using assms
  by (simp add: GuildAuditLogsEntry_new_def entry_extra_def entry_target_def
      targetType_def ToNumber_action_def get_or_def is_digit_def decimal_val_def digit_val_def)

theorem bulk_delete_extra_and_target_witness:
  "\<exists>e. GuildAuditLogsEntry_new example_logs example_guild
         (example_entry\<lparr>d_action_type := MESSAGE_BULK_DELETE, d_target_id := JStr ''C1'',
            d_options := Some [(''channel_id'', JStr ''C1''), (''count'', JStr ''5'')]\<rparr>) = Inr e \<and>
       e_extra e = ExtraChannelCount (REntity (Entity Channel [(''id'', JStr ''C1'')])) (Num 5) \<and>
       e_target e = REntity (Entity Channel [(''id'', JStr ''C1'')])"
  using bulk_delete_extra_and_target [
      of "example_entry\<lparr>d_action_type := MESSAGE_BULK_DELETE, d_target_id := JStr ''C1'',
            d_options := Some [(''channel_id'', JStr ''C1''), (''count'', JStr ''5'')]\<rparr>"
         "[(''channel_id'', JStr ''C1''), (''count'', JStr ''5'')]"
         example_guild "Entity Channel [(''id'', JStr ''C1'')]" example_logs]
  by (simp add: example_guild_def obj_get_def Collection_get_def)

text \<open>
  Claim C5. For a raw record with action type 50, target id \<^verbatim>\<open>"W1"\<close> that the batch's webhook
  cache does not hold, and the single change \<^verbatim>\<open>{key: "name", new_value: "hook"}\<close>, the target
  is a newly constructed webhook whose data object is the change projection merged over
  \<^verbatim>\<open>{id: "W1", guild_id: guild.id}\<close>: it carries the id \<^verbatim>\<open>"W1"\<close>, the guild's id and the name
  \<^verbatim>\<open>"hook"\<close>.
\<close>

theorem webhook_synthesized:
  assumes "d_action_type data = WEBHOOK_CREATE"
    and "d_target_id data = JStr ''W1''"
    and "Collection_get (l_webhooks logs) (JStr ''W1'') = None"
    and "d_changes data = Some [\<lparr>c_key = ''name'', c_old_value = ov, c_new_value = JStr ''hook''\<rparr>]"
  shows "\<exists>e. GuildAuditLogsEntry_new logs guild data = Inr e \<and>
             e_target e =
               REntity (Entity Webhook
                 (reduce_changes [\<lparr>ch_key = ''name'', ch_old = ov, ch_new = JStr ''hook''\<rparr>]
                    [(''id'', JStr ''W1''), (''guild_id'', JStr (g_id guild))])) \<and>
             e_target e =
               REntity (Entity Webhook
                 [(''id'', JStr ''W1''), (''guild_id'', JStr (g_id guild)),
                  (''name'', JStr ''hook'')])"
  using assms
  by (simp add: GuildAuditLogsEntry_new_def entry_extra_def entry_target_def
      targetType_def ToNumber_action_def reduce_changes_def change_of_def)

theorem webhook_synthesized_witness:
  "\<exists>e. GuildAuditLogsEntry_new example_logs example_guild
         (example_entry\<lparr>d_action_type := WEBHOOK_CREATE, d_target_id := JStr ''W1'',
            d_changes := Some [\<lparr>c_key = ''name'', c_old_value = JUndefined,
                                c_new_value = JStr ''hook''\<rparr>]\<rparr>) = Inr e \<and>
       e_target e =
         REntity (Entity Webhook
           [(''id'', JStr ''W1''), (''guild_id'', JStr ''G1''), (''name'', JStr ''hook'')])"
  using webhook_synthesized [
      of "example_entry\<lparr>d_action_type := WEBHOOK_CREATE, d_target_id := JStr ''W1'',
            d_changes := Some [\<lparr>c_key = ''name'', c_old_value = JUndefined,
                                c_new_value = JStr ''hook''\<rparr>]\<rparr>"
         example_logs JUndefined example_guild]
  by (auto simp: example_logs_def example_guild_def example_entry_def Collection_get_def)

subsection \<open>Timestamps\<close>

text \<open>
  Claim C8. Whatever the decoder \<open>deconstruct\<close> is, the \<open>createdTimestamp\<close> of a resolved
  entry is the \<open>timestamp\<close> of the deconstructed id of its raw record, \<open>createdAt\<close> is the date
  of exactly that value, and any entry with the same id has the same two values.
\<close>

theorem createdTimestamp_of_id:
  assumes "GuildAuditLogsEntry_new logs guild data = Inr e"
  shows "createdTimestamp deconstruct e = timestamp (deconstruct (d_id data)) \<and>
         createdAt deconstruct e = Date (createdTimestamp deconstruct e) \<and>
         (\<forall>e'. e_id e' = e_id e \<longrightarrow>
            createdTimestamp deconstruct e' = createdTimestamp deconstruct e \<and>
            createdAt deconstruct e' = createdAt deconstruct e)"
  using entry_fields [OF assms] by (simp add: createdTimestamp_def createdAt_def)

lemma example_snowflake_entry:
  "GuildAuditLogsEntry_new example_logs example_guild
     (example_entry\<lparr>d_id := JStr ''175928847299117063''\<rparr>) =
   Inr \<lparr>e_targetType = Some GUILD,
        e_actionType = UPDATE,
        e_action = Some ''GUILD_UPDATE'',
        e_reason = JNull,
        e_executor = Some (Entity User [(''id'', JStr ''U1'')]),
        e_changes = None,
        e_id = JStr ''175928847299117063'',
        e_extra = ExtraNull,
        e_target = REntity (Entity Guild [(''id'', JStr ''G1'')])\<rparr>"
  by (simp add: GuildAuditLogsEntry_new_def entry_extra_def entry_target_def
      targetType_def ToNumber_action_def actionType_def action_name_def Actions_def
      example_entry_def example_guild_def example_logs_def get_ref_def Collection_get_def)

theorem createdTimestamp_of_id_witness:
  "\<exists>e. GuildAuditLogsEntry_new example_logs example_guild
         (example_entry\<lparr>d_id := JStr ''175928847299117063''\<rparr>) = Inr e \<and>
       createdTimestamp example_deconstruct e = 1462015105796 \<and>
       createdAt example_deconstruct e = Date 1462015105796"
proof -
  let ?d = "example_entry\<lparr>d_id := JStr ''175928847299117063''\<rparr>"
  obtain e where e: "GuildAuditLogsEntry_new example_logs example_guild ?d = Inr e"
    using example_snowflake_entry by blast
  have "timestamp (example_deconstruct (d_id ?d)) = 1462015105796"
    by (simp add: example_deconstruct_def decimal_val_def digit_val_def)
  with createdTimestamp_of_id [OF e, of example_deconstruct] e show ?thesis
    by auto
qed

subsection \<open>The entry collection\<close>

lemma Collection_set_keys:
  "map fst (Collection_set c k v) =
     (if k \<in> set (map fst c) then map fst c else map fst c @ [k])"
  by (induction c) auto

lemma Collection_set_fresh:
  "k \<notin> set (map fst c) \<Longrightarrow> Collection_set c k v = c @ [(k, v)]"
  by (induction c) auto

lemma Collection_get_set:
  "Collection_get (Collection_set c k v) k' = (if k' = k then Some v else Collection_get c k')"
  by (induction c) (auto simp: Collection_get_def)

lemma entry_target_cong:
  "l_webhooks l' = l_webhooks l \<Longrightarrow> l_integrations l' = l_integrations l \<Longrightarrow>
   entry_target l' guild data tt changes = entry_target l guild data tt changes"
  unfolding entry_target_def by simp

lemma entry_new_cong:
  "l_webhooks l' = l_webhooks l \<Longrightarrow> l_integrations l' = l_integrations l \<Longrightarrow>
   GuildAuditLogsEntry_new l' guild data = GuildAuditLogsEntry_new l guild data"
proof -
  assume "l_webhooks l' = l_webhooks l" and "l_integrations l' = l_integrations l"
  then have eq: "entry_target l' guild data tt changes = entry_target l guild data tt changes"
    for tt changes
    by (rule entry_target_cong)
  show ?thesis
    unfolding GuildAuditLogsEntry_new_def Let_def eq ..
qed

lemma entries_loop_caches:
  "entries_loop logs guild items = Inr logs' \<Longrightarrow>
     l_webhooks logs' = l_webhooks logs \<and> l_integrations logs' = l_integrations logs"
  by (induction items arbitrary: logs) (auto split: sum.splits)

lemma entries_loop_snoc:
  "entries_loop logs guild (items @ [item]) =
     (case entries_loop logs guild items of
        Inl err \<Rightarrow> Inl err
      | Inr logs' \<Rightarrow>
          (case GuildAuditLogsEntry_new logs' guild item of
             Inl err \<Rightarrow> Inl err
           | Inr entry \<Rightarrow>
               Inr (logs'\<lparr>l_entries := Collection_set (l_entries logs') (e_id entry) entry\<rparr>)))"
  by (induction items arbitrary: logs) (auto split: sum.splits)

lemma first_occurrences_snoc:
  "rev (remdups (rev (xs @ [x]))) =
     (if x \<in> set xs then rev (remdups (rev xs)) else rev (remdups (rev xs)) @ [x])"
  by simp

lemma entries_loop_keys:
  "entries_loop logs guild items = Inr logs' \<Longrightarrow> l_entries logs = [] \<Longrightarrow>
     map fst (l_entries logs') = rev (remdups (rev (map d_id items)))"
proof (induction items arbitrary: logs' rule: rev_induct)
  case Nil
  then show ?case by simp
next
  case (snoc item items)
  from snoc.prems(1) obtain mid entry where
    mid: "entries_loop logs guild items = Inr mid" and
    entry: "GuildAuditLogsEntry_new mid guild item = Inr entry" and
    logs': "logs' = mid\<lparr>l_entries := Collection_set (l_entries mid) (e_id entry) entry\<rparr>"
    by (auto simp: entries_loop_snoc split: sum.splits)
  have keys: "map fst (l_entries mid) = rev (remdups (rev (map d_id items)))"
    using snoc.IH [OF mid snoc.prems(2)] .
  have seen: "set (map fst (l_entries mid)) = set (map d_id items)"
    by (simp add: keys del: set_map)
  show ?case
    unfolding logs' using keys seen entry_fields [OF entry]
    by (simp add: Collection_set_keys del: set_map)
qed

lemma entries_loop_constructed:
  "entries_loop logs guild items = Inr logs' \<Longrightarrow> item \<in> set items \<Longrightarrow>
     \<exists>e. GuildAuditLogsEntry_new logs guild item = Inr e"
proof (induction items arbitrary: logs)
  case Nil
  then show ?case by simp
next
  case (Cons a items)
  from Cons.prems(1) obtain entry where
    a: "GuildAuditLogsEntry_new logs guild a = Inr entry" and
    rest: "entries_loop (logs\<lparr>l_entries := Collection_set (l_entries logs) (e_id entry) entry\<rparr>)
             guild items = Inr logs'"
    by (auto split: sum.splits)
  show ?case
  proof (cases "item = a")
    case True
    then show ?thesis using a by blast
  next
    case False
    then have "item \<in> set items" using Cons.prems(2) by simp
    from Cons.IH [OF rest this] show ?thesis
      using entry_new_cong [of "logs\<lparr>l_entries := Collection_set (l_entries logs) (e_id entry) entry\<rparr>"
          logs guild item]
      by simp
  qed
qed

lemma entries_loop_get:
  "entries_loop logs guild items = Inr logs' \<Longrightarrow> l_entries logs = [] \<Longrightarrow>
     Collection_get (l_entries logs') k =
       (case find (\<lambda>item. d_id item = k) (rev items) of
          None \<Rightarrow> None
        | Some item \<Rightarrow>
            (case GuildAuditLogsEntry_new logs guild item of
               Inl err \<Rightarrow> None
             | Inr e \<Rightarrow> Some e))"
proof (induction items arbitrary: logs' rule: rev_induct)
  case Nil
  then show ?case by (simp add: Collection_get_def)
next
  case (snoc item items)
  from snoc.prems(1) obtain mid entry where
    mid: "entries_loop logs guild items = Inr mid" and
    entry: "GuildAuditLogsEntry_new mid guild item = Inr entry" and
    logs': "logs' = mid\<lparr>l_entries := Collection_set (l_entries mid) (e_id entry) entry\<rparr>"
    by (auto simp: entries_loop_snoc split: sum.splits)
  have same: "GuildAuditLogsEntry_new logs guild item = Inr entry"
    using entry entries_loop_caches [OF mid] entry_new_cong [of mid logs guild item] by simp
  show ?case
    unfolding logs' using snoc.IH [OF mid snoc.prems(2)] same entry_fields [OF entry]
    by (simp add: Collection_get_set)
qed

lemma entries_loop_distinct:
  "entries_loop logs guild items = Inr logs' \<Longrightarrow> l_entries logs = [] \<Longrightarrow>
   distinct (map d_id items) \<Longrightarrow>
     map (\<lambda>(k, e). (k, Inr e)) (l_entries logs') =
       map (\<lambda>item. (d_id item, GuildAuditLogsEntry_new logs guild item)) items"
proof (induction items arbitrary: logs' rule: rev_induct)
  case Nil
  then show ?case by simp
next
  case (snoc item items)
  from snoc.prems(1) obtain mid entry where
    mid: "entries_loop logs guild items = Inr mid" and
    entry: "GuildAuditLogsEntry_new mid guild item = Inr entry" and
    logs': "logs' = mid\<lparr>l_entries := Collection_set (l_entries mid) (e_id entry) entry\<rparr>"
    by (auto simp: entries_loop_snoc split: sum.splits)
  have same: "GuildAuditLogsEntry_new logs guild item = Inr entry"
    using entry entries_loop_caches [OF mid] entry_new_cong [of mid logs guild item] by simp
  have dist: "distinct (map d_id items)" and fresh: "d_id item \<notin> set (map d_id items)"
    using snoc.prems(3) by auto
  have "set (map fst (l_entries mid)) = set (map d_id items)"
    using entries_loop_keys [OF mid snoc.prems(2)] by (simp del: set_map)
  then have "e_id entry \<notin> set (map fst (l_entries mid))"
    using fresh entry_fields [OF entry] by simp
  then show ?case
    unfolding logs' using snoc.IH [OF mid snoc.prems(2) dist] same entry_fields [OF entry]
    by (simp add: Collection_set_fresh)
qed

lemma GuildAuditLogs_new_loop:
  assumes "GuildAuditLogs_new guild data = (guild', result)"
  shows "\<exists>logs0. entries_loop logs0 guild' (b_audit_log_entries data) = result \<and>
                 l_entries logs0 = []"
proof -
  let ?logs0 = "\<lparr>l_webhooks = webhooks_cache (b_webhooks data),
                 l_integrations = integrations_cache (b_integrations data),
                 l_entries = []\<rparr>"
  have "entries_loop ?logs0 guild' (b_audit_log_entries data) = result"
    using assms by (auto simp: GuildAuditLogs_new_def Let_def)
  moreover have "l_entries ?logs0 = []"
    by simp
  ultimately show ?thesis
    by blast
qed

text \<open>
  Claim C6. When the batch constructor returns, the keys of the entry collection are the ids
  of \<^verbatim>\<open>audit_log_entries\<close> in source order, each at the place of its first occurrence and
  whatever the ids are; an entry has been constructed for every source element; with pairwise
  distinct ids the collection is, element by element and in source order, the id of each
  source element with the entry constructed from it; and the entry found under an id is the
  one constructed from the last source element with that id, so a later entry with a
  colliding id overwrites the earlier one.
\<close>

theorem entries_in_source_order:
  assumes "GuildAuditLogs_new guild data = (guild', Inr logs)"
  shows "map fst (l_entries logs) = rev (remdups (rev (map d_id (b_audit_log_entries data)))) \<and>
         (\<forall>item \<in> set (b_audit_log_entries data).
            \<exists>e. GuildAuditLogsEntry_new logs guild' item = Inr e) \<and>
         (distinct (map d_id (b_audit_log_entries data)) \<longrightarrow>
            map (\<lambda>(k, e). (k, Inr e)) (l_entries logs) =
              map (\<lambda>item. (d_id item, GuildAuditLogsEntry_new logs guild' item))
                (b_audit_log_entries data)) \<and>
         (\<forall>k. Collection_get (l_entries logs) k =
            (case find (\<lambda>item. d_id item = k) (rev (b_audit_log_entries data)) of
               None \<Rightarrow> None
             | Some item \<Rightarrow>
                 (case GuildAuditLogsEntry_new logs guild' item of
                    Inl err \<Rightarrow> None
                  | Inr e \<Rightarrow> Some e)))"
proof -
  obtain logs0 where
    loop: "entries_loop logs0 guild' (b_audit_log_entries data) = Inr logs" and
    empty: "l_entries logs0 = []"
    using GuildAuditLogs_new_loop [OF assms] by blast
  have same: "GuildAuditLogsEntry_new logs guild' item = GuildAuditLogsEntry_new logs0 guild' item"
    for item
    using entries_loop_caches [OF loop] entry_new_cong [of logs logs0 guild' item] by simp
  show ?thesis
    unfolding same
    using entries_loop_keys [OF loop empty] entries_loop_constructed [OF loop]
      entries_loop_distinct [OF loop empty] entries_loop_get [OF loop empty]
    by blast
qed

lemma example_batch_resolves:
  "\<exists>guild' logs. GuildAuditLogs_new example_guild example_batch = (guild', Inr logs)"
  by (simp add: GuildAuditLogs_new_def register_users_def webhooks_cache_def
      integrations_cache_def example_batch_def example_guild_def example_entry_def
      newUser_def Collection_get_def obj_get_def GuildAuditLogsEntry_new_def entry_extra_def
      entry_target_def targetType_def ToNumber_action_def get_ref_def)

theorem entries_in_source_order_witness:
  "\<exists>guild' logs. GuildAuditLogs_new example_guild example_batch = (guild', Inr logs) \<and>
     map fst (l_entries logs) = [JStr ''3'', JStr ''1'', JStr ''2''] \<and>
     map (\<lambda>(k, e). (k, Inr e)) (l_entries logs) =
       map (\<lambda>item. (d_id item, GuildAuditLogsEntry_new logs guild' item))
         (b_audit_log_entries example_batch)"
proof -
  obtain guild' logs where
    run: "GuildAuditLogs_new example_guild example_batch = (guild', Inr logs)"
    using example_batch_resolves by blast
  have ids: "map d_id (b_audit_log_entries example_batch) = [JStr ''3'', JStr ''1'', JStr ''2'']"
    by (simp add: example_batch_def)
  have keys: "map fst (l_entries logs) = [JStr ''3'', JStr ''1'', JStr ''2'']"
    using entries_in_source_order [OF run] by (simp add: ids)
  have all: "map (\<lambda>(k, e). (k, Inr e)) (l_entries logs) =
       map (\<lambda>item. (d_id item, GuildAuditLogsEntry_new logs guild' item))
         (b_audit_log_entries example_batch)"
    using entries_in_source_order [OF run] by (simp add: ids)
  show ?thesis
    by (rule exI [of _ guild'], rule exI [of _ logs]) (simp only: run keys all)
qed

text \<open>
  A batch whose third record repeats the id of the first: the collection has two entries,
  and the first of them is the one constructed from the third record.
\<close>

lemma colliding_ids_example:
  "snd (GuildAuditLogs_new example_guild
     (example_batch\<lparr>b_audit_log_entries :=
        [example_entry\<lparr>d_id := JStr ''3''\<rparr>,
         example_entry\<lparr>d_id := JStr ''1''\<rparr>,
         example_entry\<lparr>d_id := JStr ''3'', d_reason := JStr ''again''\<rparr>]\<rparr>)) =
   Inr \<lparr>l_webhooks = [],
        l_integrations = [],
        l_entries =
          [(JStr ''3'',
            \<lparr>e_targetType = Some GUILD, e_actionType = UPDATE,
             e_action = Some ''GUILD_UPDATE'', e_reason = JStr ''again'',
             e_executor = Some (Entity User [(''id'', JStr ''U1'')]),
             e_changes = None, e_id = JStr ''3'', e_extra = ExtraNull,
             e_target = REntity (Entity Guild [(''id'', JStr ''G1'')])\<rparr>),
           (JStr ''1'',
            \<lparr>e_targetType = Some GUILD, e_actionType = UPDATE,
             e_action = Some ''GUILD_UPDATE'', e_reason = JNull,
             e_executor = Some (Entity User [(''id'', JStr ''U1'')]),
             e_changes = None, e_id = JStr ''1'', e_extra = ExtraNull,
             e_target = REntity (Entity Guild [(''id'', JStr ''G1'')])\<rparr>)]\<rparr>"
  by (simp add: GuildAuditLogs_new_def register_users_def webhooks_cache_def
      integrations_cache_def example_batch_def example_guild_def example_entry_def
      newUser_def Collection_get_def obj_get_def GuildAuditLogsEntry_new_def entry_extra_def
      entry_target_def targetType_def ToNumber_action_def get_ref_def actionType_def
      action_name_def Actions_def)

subsection \<open>Resolving a batch twice\<close>

lemma newUser_keeps:
  "Collection_get (g_client_users guild) k = Some u \<Longrightarrow>
     \<exists>u'. Collection_get (g_client_users (newUser guild user)) k = Some u'"
  by (auto simp: newUser_def Collection_get_set split: option.splits)

lemma newUser_cached:
  "\<exists>u. Collection_get (g_client_users (newUser guild user)) (obj_get user ''id'') = Some u"
  by (auto simp: newUser_def Collection_get_set split: option.splits)

lemma newUser_known:
  "Collection_get (g_client_users guild) (obj_get user ''id'') = Some u \<Longrightarrow>
     newUser guild user = guild"
  by (simp add: newUser_def)

lemma foldl_newUser_keeps:
  "Collection_get (g_client_users guild) k = Some u \<Longrightarrow>
     \<exists>u'. Collection_get (g_client_users (foldl newUser guild users)) k = Some u'"
proof (induction users arbitrary: guild u)
  case Nil
  then show ?case by simp
next
  case (Cons user users)
  from newUser_keeps [OF Cons.prems] obtain u' where
    "Collection_get (g_client_users (newUser guild user)) k = Some u'" by blast
  from Cons.IH [OF this] show ?case by simp
qed

lemma foldl_newUser_cached:
  "user \<in> set users \<Longrightarrow>
     \<exists>u. Collection_get (g_client_users (foldl newUser guild users)) (obj_get user ''id'') = Some u"
proof (induction users arbitrary: guild)
  case Nil
  then show ?case by simp
next
  case (Cons a users)
  show ?case
  proof (cases "user = a")
    case True
    obtain u where "Collection_get (g_client_users (newUser guild a)) (obj_get a ''id'') = Some u"
      using newUser_cached by blast
    from foldl_newUser_keeps [OF this] show ?thesis using True by simp
  next
    case False
    then have "user \<in> set users" using Cons.prems by simp
    from Cons.IH [OF this] show ?thesis by simp
  qed
qed

lemma foldl_newUser_known:
  "(\<And>user. user \<in> set users \<Longrightarrow>
      \<exists>u. Collection_get (g_client_users guild) (obj_get user ''id'') = Some u) \<Longrightarrow>
   foldl newUser guild users = guild"
proof (induction users)
  case Nil
  then show ?case by simp
next
  case (Cons a users)
  obtain u where "Collection_get (g_client_users guild) (obj_get a ''id'') = Some u"
    using Cons.prems [of a] by auto
  then have "newUser guild a = guild" by (rule newUser_known)
  then show ?case using Cons by simp
qed

lemma register_users_twice:
  "register_users (register_users guild users) users = register_users guild users"
proof (cases users)
  case None
  then show ?thesis by (simp add: register_users_def)
next
  case (Some us)
  have "foldl newUser (foldl newUser guild us) us = foldl newUser guild us"
    by (rule foldl_newUser_known) (rule foldl_newUser_cached)
  then show ?thesis using Some by (simp add: register_users_def)
qed

text \<open>
  Claim C7. Resolving a batch leaves a guild context in which resolving the same batch again
  changes nothing and gives the same result: the same entries field by field, or the same
  exception. The user upsert is the only state the constructor writes, and it is idempotent.
\<close>

theorem resolution_repeatable:
  assumes "GuildAuditLogs_new guild data = (guild', result)"
  shows "GuildAuditLogs_new guild' data = (guild', result)"
proof -
  have g: "guild' = register_users guild (b_users data)"
    using assms by (simp add: GuildAuditLogs_new_def Let_def)
  have again: "register_users guild' (b_users data) = guild'"
    unfolding g by (rule register_users_twice)
  have "GuildAuditLogs_new guild' data = GuildAuditLogs_new guild data"
    unfolding GuildAuditLogs_new_def Let_def again g [symmetric] ..
  then show ?thesis using assms by simp
qed

lemma example_batch_registers:
  "g_client_users (fst (GuildAuditLogs_new example_guild example_batch)) =
     [(JStr ''U1'', Entity User [(''id'', JStr ''U1'')]),
      (JStr ''U2'', Entity User [(''id'', JStr ''U2'')])]"
  by (simp add: GuildAuditLogs_new_def Let_def register_users_def example_batch_def
      example_guild_def newUser_def Collection_get_def obj_get_def)

theorem resolution_repeatable_witness:
  "GuildAuditLogs_new (fst (GuildAuditLogs_new example_guild example_batch)) example_batch =
     GuildAuditLogs_new example_guild example_batch \<and>
   fst (GuildAuditLogs_new example_guild example_batch) \<noteq> example_guild"
proof -
  have "GuildAuditLogs_new example_guild example_batch =
          (fst (GuildAuditLogs_new example_guild example_batch),
           snd (GuildAuditLogs_new example_guild example_batch))"
    by simp
  from resolution_repeatable [OF this]
  have "GuildAuditLogs_new (fst (GuildAuditLogs_new example_guild example_batch)) example_batch =
          GuildAuditLogs_new example_guild example_batch"
    by simp
  moreover have "fst (GuildAuditLogs_new example_guild example_batch) \<noteq> example_guild"
  proof
    assume "fst (GuildAuditLogs_new example_guild example_batch) = example_guild"
    then have "g_client_users (fst (GuildAuditLogs_new example_guild example_batch)) =
                 g_client_users example_guild"
      by simp
    then show False
      unfolding example_batch_registers by (simp add: example_guild_def)
  qed
  ultimately show ?thesis
    by blast
qed

end
